theory Spec2Isabelle
  imports Main "HOL-Library.AList"
begin

section \<open>Python values, exceptions and the object store\<close>

text \<open>
  The module \<^verbatim>\<open>newspaper_with_cookies/network.py\<close> fetches HTML over HTTP. Its functions raise
  exceptions, write log records, delete keys from cookie dictionaries in place and assign the
  attributes \<^verbatim>\<open>self.resp\<close> and \<^verbatim>\<open>response.encoding\<close>. The embedding makes each of these
  explicit: a raise is the \<open>Inl\<close> of a sum, the log and the requests handed to the transport
  are lists in a \<open>world\<close> record, and the dictionaries live in a store so that two names for
  one dictionary (a cookie record of \<^verbatim>\<open>config.cookies\<close> and the loop variable \<^verbatim>\<open>cookie\<close>)
  see the same deletions.

  Exceptions are a class and a message. Every class below derives from Python's
  \<^verbatim>\<open>Exception\<close>, so the clause \<^verbatim>\<open>except Exception\<close> catches every value of type \<open>exn\<close>; the
  first five classes are \<^verbatim>\<open>requests.exceptions.RequestException\<close> and its subclasses.
\<close>

datatype exn_class =
    RequestException | ConnectionError | HTTPError | Timeout | TooManyRedirects
  | FileNotFoundError | JSONDecodeError | TypeError | AttributeError | UnicodeError
  | DeprecationWarning

datatype exn = Raise exn_class string

fun str :: "exn \<Rightarrow> string" where
  "str (Raise c m) = m"

fun subclass_of_RequestException :: "exn_class \<Rightarrow> bool" where
  "subclass_of_RequestException RequestException = True"
| "subclass_of_RequestException ConnectionError = True"
| "subclass_of_RequestException HTTPError = True"
| "subclass_of_RequestException Timeout = True"
| "subclass_of_RequestException TooManyRedirects = True"
| "subclass_of_RequestException FileNotFoundError = False"
| "subclass_of_RequestException JSONDecodeError = False"
| "subclass_of_RequestException TypeError = False"
| "subclass_of_RequestException AttributeError = False"
| "subclass_of_RequestException UnicodeError = False"
| "subclass_of_RequestException DeprecationWarning = False"

fun is_RequestException :: "exn \<Rightarrow> bool" where
  "is_RequestException (Raise c m) = subclass_of_RequestException c"

datatype level = DEBUG | INFO | ERROR | CRITICAL

text \<open>
  A JSON document, as \<^verbatim>\<open>json.load\<close> reads it, and the Python values it becomes. A dictionary
  is an object: the value \<open>PDict a\<close> is a reference to the dictionary stored at address \<open>a\<close>.
  Lists are never modified by this module, so a list is a plain value. A dictionary is an
  association list in insertion order with one entry per key. Numbers are carried as
  integers: the module never computes with them.
\<close>

datatype json =
  JNull | JBool bool | JNum int | JStr string | JArr "json list" | JObj "(string \<times> json) list"

type_synonym addr = nat

datatype pyval = PNone | PBool bool | PNum int | PStr string | PList "pyval list" | PDict addr

type_synonym dict = "(string \<times> pyval) list"

type_synonym heap = "dict list"

text \<open>
  \<^verbatim>\<open>json.load\<close> builds new objects: each JSON object is stored at the next free address, after
  its members. A key that occurs twice keeps its first position and its last value, as the
  assignment \<^verbatim>\<open>d[k] = v\<close> does.
\<close>

fun json_load :: "json \<Rightarrow> heap \<Rightarrow> pyval \<times> heap"
and json_load_items :: "json list \<Rightarrow> heap \<Rightarrow> pyval list \<times> heap"
and json_load_pairs :: "(string \<times> json) list \<Rightarrow> dict \<Rightarrow> heap \<Rightarrow> dict \<times> heap" where
  "json_load JNull h = (PNone, h)"
| "json_load (JBool b) h = (PBool b, h)"
| "json_load (JNum n) h = (PNum n, h)"
| "json_load (JStr s) h = (PStr s, h)"
| "json_load (JArr js) h = (case json_load_items js h of (vs, h') \<Rightarrow> (PList vs, h'))"
| "json_load (JObj kvs) h =
     (case json_load_pairs kvs [] h of (d, h') \<Rightarrow> (PDict (length h'), h' @ [d]))"
| "json_load_items [] h = ([], h)"
| "json_load_items (j # js) h =
     (case json_load j h of (v, h1) \<Rightarrow>
        (case json_load_items js h1 of (vs, h2) \<Rightarrow> (v # vs, h2)))"
| "json_load_pairs [] d h = (d, h)"
| "json_load_pairs ((k, j) # kvs) d h =
     (case json_load j h of (v, h1) \<Rightarrow> json_load_pairs kvs (AList.update k v d) h1)"

section \<open>Configuration, responses and the outside world\<close>

text \<open>
  The class \<^verbatim>\<open>Configuration\<close> is imported from \<^verbatim>\<open>.configuration\<close>; the record has the
  attributes that \<^verbatim>\<open>network.py\<close> reads. \<^verbatim>\<open>config.cookies\<close> is a list of cookie records, each a
  dictionary object, so the field holds their addresses. No statement of the module assigns an
  attribute of a configuration, which is why a configuration is a value here and only the
  dictionaries it refers to are in the store.
\<close>

record configuration =
  browser_user_agent :: string
  request_timeout :: int
  proxies :: "(string \<times> string) list"
  headers :: "(string \<times> string) list option"
  cookies :: "addr list"
  cookies_file :: string
  http_success_only :: bool
  ignored_content_types_defaults :: "string \<rightharpoonup> string"
  number_threads :: int
  thread_timeout_seconds :: int

text \<open>
  A \<^verbatim>\<open>requests.Response\<close>: the attributes the module reads. \<open>resp_headers\<close> is
  \<^verbatim>\<open>response.headers\<close>, whose \<^verbatim>\<open>get\<close> gives \<^verbatim>\<open>None\<close> for a missing header. \<^verbatim>\<open>response.text\<close>
  is computed by the library from \<open>encoding\<close> and \<open>content\<close>, or raises (see \<open>decode\<close> below).
\<close>

record response =
  status_code :: int
  resp_headers :: "string \<rightharpoonup> string"
  encoding :: "string option"
  content :: "char list"

text \<open>The dictionary that \<^verbatim>\<open>get_request_kwargs\<close> returns; the jar is the list of cookies set.\<close>

record request_kwargs =
  kw_headers :: "(string \<times> string) list"
  kw_cookies :: "dict list"
  kw_timeout :: int
  allow_redirects :: bool
  kw_proxies :: "(string \<times> string) list"

text \<open>
  What the module calls and does not define: the default \<^verbatim>\<open>Configuration()\<close>, reading and
  parsing a file (\<^verbatim>\<open>open\<close> followed by \<^verbatim>\<open>json.load\<close>), \<^verbatim>\<open>requests.cookies.create_cookie\<close>
  applied to the keyword arguments \<^verbatim>\<open>**cookie\<close>, \<^verbatim>\<open>requests.get\<close> (its answer may depend on
  how many requests were sent before), \<^verbatim>\<open>Response.raise_for_status\<close>, the decoding behind
  \<^verbatim>\<open>Response.text\<close> and \<^verbatim>\<open>requests.utils.get_encodings_from_content\<close>. They are parameters:
  every theorem below holds for all of them. Each of the calls can raise: \<^verbatim>\<open>Response.text\<close>
  catches \<^verbatim>\<open>LookupError\<close> and \<^verbatim>\<open>TypeError\<close> only, so a codec that refuses to decode (the
  codec named \<^verbatim>\<open>undefined\<close> always does) raises \<^verbatim>\<open>UnicodeError\<close> out of the property, and
  \<^verbatim>\<open>get_encodings_from_content\<close> issues a \<^verbatim>\<open>DeprecationWarning\<close>, which is an exception when
  warnings are errors.
\<close>

record env =
  default_Configuration :: configuration
  open_json_load :: "string \<Rightarrow> exn + json"
  create_cookie :: "dict \<Rightarrow> exn + dict"
  requests_get :: "nat \<Rightarrow> string \<Rightarrow> request_kwargs \<Rightarrow> exn + response"
  raise_for_status :: "response \<Rightarrow> exn option"
  decode :: "string option \<Rightarrow> char list \<Rightarrow> exn + string"
  get_encodings_from_content :: "string \<Rightarrow> exn + string list"

text \<open>
  The mutable state: the store of dictionaries, the log records written so far and the
  requests handed to \<^verbatim>\<open>requests.get\<close> so far (whether or not they succeeded).
\<close>

record world =
  heap :: heap
  logs :: "(level \<times> string) list"
  sent :: "(string \<times> request_kwargs) list"

definition log :: "level \<Rightarrow> string \<Rightarrow> world \<Rightarrow> world" where
  "log lvl m w = w\<lparr>logs := logs w @ [(lvl, m)]\<rparr>"

section \<open>Request options and the cookie jar\<close>

definition FAIL_ENCODING :: string where
  "FAIL_ENCODING = ''ISO-8859-1''"

definition FILTERED_ATTR :: "string list" where
  "FILTERED_ATTR =
     [''hostOnly'', ''session'', ''storeId'', ''id'', ''sameSite'', ''httpOnly'', ''expirationDate'']"

text \<open>
  The inner loop of \<^verbatim>\<open>get_request_kwargs\<close> on one dictionary:
  \<^verbatim>\<open>for attr in FILTERED_ATTR: if attr in cookie.keys(): del cookie[attr]\<close>.
\<close>

fun strip_attrs :: "string list \<Rightarrow> dict \<Rightarrow> dict" where
  "strip_attrs [] cookie = cookie"
| "strip_attrs (attr # attrs) cookie =
     strip_attrs attrs (if attr \<in> set (map fst cookie) then AList.delete attr cookie else cookie)"

text \<open>
  The same loop on a value of the list \<^verbatim>\<open>cookies\<close>: a dictionary is changed where it is stored;
  any other value has no method \<^verbatim>\<open>keys\<close>, and the first test raises.
\<close>

fun strip_cookie :: "heap \<Rightarrow> pyval \<Rightarrow> exn + heap" where
  "strip_cookie h (PDict a) = Inr (h[a := strip_attrs FILTERED_ATTR (h ! a)])"
| "strip_cookie h v = Inl (Raise AttributeError ''object has no attribute keys'')"

text \<open>The keyword arguments \<^verbatim>\<open>**cookie\<close>: the entries of the dictionary at the call.\<close>

fun kwargs_of :: "heap \<Rightarrow> pyval \<Rightarrow> dict" where
  "kwargs_of h (PDict a) = h ! a"
| "kwargs_of h v = []"

text \<open>\<^verbatim>\<open>for cookie in cookies\<close>: what iterating over the value yields, or the \<^verbatim>\<open>TypeError\<close>.\<close>

fun py_iter :: "heap \<Rightarrow> pyval \<Rightarrow> exn + pyval list" where
  "py_iter h (PList vs) = Inr vs"
| "py_iter h (PDict a) = Inr (map (\<lambda>kv. PStr (fst kv)) (h ! a))"
| "py_iter h (PStr s) = Inr (map (\<lambda>c. PStr [c]) s)"
| "py_iter h v = Inl (Raise TypeError ''object is not iterable'')"

text \<open>
  The outer loop: strip the cookie, build the transport cookie, put it into the jar. The jar
  that \<^verbatim>\<open>cj()\<close> creates is the list of the cookies set into it, empty at first.
\<close>

fun set_cookies :: "env \<Rightarrow> pyval list \<Rightarrow> dict list \<Rightarrow> heap \<Rightarrow> (exn + dict list) \<times> heap" where
  "set_cookies E [] jar h = (Inr jar, h)"
| "set_cookies E (cookie # rest) jar h =
     (case strip_cookie h cookie of
        Inl e \<Rightarrow> (Inl e, h)
      | Inr h1 \<Rightarrow>
          (case create_cookie E (kwargs_of h1 cookie) of
             Inl e \<Rightarrow> (Inl e, h1)
           | Inr my_cookie \<Rightarrow> set_cookies E rest (jar @ [my_cookie]) h1))"

definition get_request_kwargs ::
  "env \<Rightarrow> int \<Rightarrow> string \<Rightarrow> (string \<times> string) list \<Rightarrow> (string \<times> string) list option \<Rightarrow>
   pyval \<Rightarrow> heap \<Rightarrow> (exn + request_kwargs) \<times> heap" where
  "get_request_kwargs E timeout useragent proxies0 headers0 cookies0 h =
     (case py_iter h cookies0 of
        Inl e \<Rightarrow> (Inl e, h)
      | Inr items \<Rightarrow>
          (case set_cookies E items [] h of
             (Inl e, h') \<Rightarrow> (Inl e, h')
           | (Inr jar, h') \<Rightarrow>
               (Inr \<lparr>kw_headers =
                       (case headers0 of
                          None \<Rightarrow> [(''User-Agent'', useragent)]
                        | Some hs \<Rightarrow> if hs \<noteq> [] then hs else [(''User-Agent'', useragent)]),
                     kw_cookies = jar,
                     kw_timeout = timeout,
                     allow_redirects = True,
                     kw_proxies = proxies0\<rparr>, h')))"

section \<open>The response normalizer\<close>

text \<open>
  The result of \<^verbatim>\<open>_get_html_from_response\<close> is a \<^verbatim>\<open>str\<close> (\<^verbatim>\<open>response.text\<close>, a mapped literal
  or \<^verbatim>\<open>''\<close>) or the \<^verbatim>\<open>bytes\<close> of \<^verbatim>\<open>response.content\<close>.
\<close>

datatype html = Text string | Bytes "char list"

text \<open>\<^verbatim>\<open>html or ''\<close>: an empty \<^verbatim>\<open>str\<close> or \<^verbatim>\<open>bytes\<close> is false.\<close>

fun or_empty :: "html \<Rightarrow> html" where
  "or_empty (Text s) = Text s"
| "or_empty (Bytes b) = (if b = [] then Text [] else Bytes b)"

text \<open>
  The property \<^verbatim>\<open>response.text\<close>: the body decoded with the current \<^verbatim>\<open>response.encoding\<close>,
  or the exception the decoding raises.
\<close>

definition response_text :: "env \<Rightarrow> response \<Rightarrow> exn + string" where
  "response_text E r = decode E (encoding r) (content r)"

text \<open>\<^verbatim>\<open>sub in s\<close> on strings: \<open>sub\<close> occurs in \<open>s\<close> as a contiguous block.\<close>

fun starts_with :: "string \<Rightarrow> string \<Rightarrow> bool" where
  "starts_with [] s = True"
| "starts_with (c # cs) [] = False"
| "starts_with (c # cs) (d # ds) = (c = d \<and> starts_with cs ds)"

fun contains :: "string \<Rightarrow> string \<Rightarrow> bool" where
  "contains sub [] = (sub = [])"
| "contains sub (c # s) = (starts_with sub (c # s) \<or> contains sub s)"

text \<open>
  \<^verbatim>\<open>_get_html_from_response(response, config)\<close>, returning the result and the response, whose
  \<^verbatim>\<open>encoding\<close> the function may assign. With no content-type header
  \<^verbatim>\<open>response.headers.get('content-type')\<close> is \<^verbatim>\<open>None\<close>: it is no key of the mapping, and the
  test \<^verbatim>\<open>'charset' not in None\<close> raises \<^verbatim>\<open>TypeError\<close>. The function has no \<^verbatim>\<open>try\<close>: what
  \<^verbatim>\<open>response.text\<close> or the scan of the body raises leaves the function, after the assignment
  to \<^verbatim>\<open>response.encoding\<close> if that came first.
\<close>

definition get_html_from_response ::
  "env \<Rightarrow> response \<Rightarrow> configuration \<Rightarrow> (exn + html) \<times> response" where
  "get_html_from_response E response config =
     (let content_type = resp_headers response ''content-type'' in
      case (case content_type of
              None \<Rightarrow> None
            | Some ct \<Rightarrow> ignored_content_types_defaults config ct) of
        Some literal \<Rightarrow> (Inr (Text literal), response)
      | None \<Rightarrow>
          if encoding response \<noteq> Some FAIL_ENCODING then
            (case response_text E response of
               Inl e \<Rightarrow> (Inl e, response)
             | Inr html \<Rightarrow> (Inr (or_empty (Text html)), response))
          else
            (case content_type of
               None \<Rightarrow> (Inl (Raise TypeError ''argument of type NoneType is not iterable''), response)
             | Some ct \<Rightarrow>
                 if \<not> contains ''charset'' ct then
                   (case response_text E response of
                      Inl e \<Rightarrow> (Inl e, response)
                    | Inr text \<Rightarrow>
                        (case get_encodings_from_content E text of
                           Inl e \<Rightarrow> (Inl e, response)
                         | Inr encodings \<Rightarrow>
                             if length encodings > 0 then
                               (let response' = response\<lparr>encoding := Some (hd encodings)\<rparr> in
                                case response_text E response' of
                                  Inl e \<Rightarrow> (Inl e, response')
                                | Inr html \<Rightarrow> (Inr (or_empty (Text html)), response'))
                             else (Inr (or_empty (Bytes (content response))), response)))
                 else (Inr (or_empty (Bytes (content response))), response)))"

section \<open>Single fetch\<close>

text \<open>
  The block that both \<^verbatim>\<open>get_html_2XX_only\<close> and \<^verbatim>\<open>MRequest.send\<close> contain:
  \<^verbatim>\<open>try: with open(path, 'rb') as f: cookies = json.load(f)\<close>
  \<^verbatim>\<open>except Exception as e: log.error(...); cookies = <the configured cookies>\<close>.
  It returns the value of \<^verbatim>\<open>cookies\<close> after the block.
\<close>

definition load_cookie_file :: "env \<Rightarrow> string \<Rightarrow> pyval \<Rightarrow> world \<Rightarrow> pyval \<times> world" where
  "load_cookie_file E path configured w =
     (case open_json_load E path of
        Inr j \<Rightarrow> (case json_load j (heap w) of (v, h') \<Rightarrow> (v, w\<lparr>heap := h'\<rparr>))
      | Inl e \<Rightarrow>
          (configured,
           log ERROR (''Failed loading cookie file at: '' @ path @ '' with error: '' @ str e) w))"

definition config_or_default :: "env \<Rightarrow> configuration option \<Rightarrow> configuration" where
  "config_or_default E config = (case config of Some c \<Rightarrow> c | None \<Rightarrow> default_Configuration E)"

text \<open>
  The second half of \<^verbatim>\<open>get_html_2XX_only\<close>, from \<^verbatim>\<open>if response is not None\<close> to the end, with the
  value of the local variable \<^verbatim>\<open>cookies\<close> as an argument. The middle component of the result
  is the response object at the exit.
\<close>

definition fetch_html ::
  "env \<Rightarrow> string \<Rightarrow> configuration \<Rightarrow> response option \<Rightarrow> pyval \<Rightarrow> world \<Rightarrow>
   (exn + html) \<times> response option \<times> world" where
  "fetch_html E url config response cookies0 w =
     (case response of
        Some r \<Rightarrow>
          (case get_html_from_response E r config of (res, r') \<Rightarrow> (res, Some r', w))
      | None \<Rightarrow>
          (case get_request_kwargs E (request_timeout config) (browser_user_agent config)
                  (proxies config) (headers config) cookies0 (heap w) of
             (Inl e, h') \<Rightarrow> (Inl e, None, w\<lparr>heap := h'\<rparr>)
           | (Inr kw, h') \<Rightarrow>
               (let w1 = w\<lparr>heap := h', sent := sent w @ [(url, kw)]\<rparr> in
                case requests_get E (length (sent w)) url kw of
                  Inl e \<Rightarrow> (Inl e, None, w1)
                | Inr r \<Rightarrow>
                    (case get_html_from_response E r config of
                       (Inl e, r') \<Rightarrow> (Inl e, Some r', w1)
                     | (Inr html, r') \<Rightarrow>
                         if http_success_only config then
                           (case raise_for_status E r' of
                              Some e \<Rightarrow> (Inl e, Some r', w1)
                            | None \<Rightarrow> (Inr html, Some r', w1))
                         else (Inr html, Some r', w1)))))"

definition get_html_2XX_only ::
  "env \<Rightarrow> string \<Rightarrow> configuration option \<Rightarrow> response option \<Rightarrow> world \<Rightarrow>
   (exn + html) \<times> response option \<times> world" where
  "get_html_2XX_only E url config response w =
     (let config = config_or_default E config;
          cookies0 = PList (map PDict (configuration.cookies config))
      in if configuration.cookies_file config \<noteq> '''' then
           (case load_cookie_file E (configuration.cookies_file config) cookies0
                   (log INFO ''Loading Cookie File'' w) of
              (cookies1, w1) \<Rightarrow> fetch_html E url config response cookies1 w1)
         else fetch_html E url config response cookies0 w)"

definition get_html ::
  "env \<Rightarrow> string \<Rightarrow> configuration option \<Rightarrow> response option \<Rightarrow> world \<Rightarrow>
   (exn + html) \<times> response option \<times> world" where
  "get_html E url config response w =
     (case get_html_2XX_only E url config response w of
        (Inr html, r, w') \<Rightarrow> (Inr html, r, w')
      | (Inl e, r, w') \<Rightarrow>
          if is_RequestException e then
            (Inr (Text ''''), r,
             log DEBUG (''get_html() error. '' @ str e @ '' on URL: '' @ url) w')
          else (Inl e, r, w'))"

section \<open>Fetch tasks and the batch\<close>

text \<open>
  The class \<^verbatim>\<open>MRequest\<close>. \<^verbatim>\<open>__init__\<close> stores the \<^verbatim>\<open>config\<close> argument as it is (possibly
  \<^verbatim>\<open>None\<close>) and copies the other attributes from \<^verbatim>\<open>config or Configuration()\<close>;
  \<^verbatim>\<open>self.cookies\<close> is the very list \<^verbatim>\<open>config.cookies\<close>, so it refers to the same dictionaries.
\<close>

record MRequest =
  url :: string
  config :: "configuration option"
  useragent :: string
  timeout :: int
  proxies :: "(string \<times> string) list"
  headers :: "(string \<times> string) list option"
  cookies :: "addr list"
  cookies_file :: string
  resp :: "response option"

definition MRequest_init :: "env \<Rightarrow> string \<Rightarrow> configuration option \<Rightarrow> MRequest" where
  "MRequest_init E url0 config0 =
     (let c = config_or_default E config0 in
      \<lparr>url = url0,
       config = config0,
       useragent = browser_user_agent c,
       timeout = request_timeout c,
       proxies = configuration.proxies c,
       headers = configuration.headers c,
       cookies = configuration.cookies c,
       cookies_file = configuration.cookies_file c,
       resp = None\<rparr>)"

text \<open>
  The clause \<^verbatim>\<open>except requests.exceptions.RequestException as e: log.critical(...)\<close> of
  \<^verbatim>\<open>send\<close>, applied to an exception raised inside the \<^verbatim>\<open>try\<close> block.
\<close>

definition except_RequestException ::
  "exn \<Rightarrow> MRequest \<Rightarrow> world \<Rightarrow> (exn + unit) \<times> MRequest \<times> world" where
  "except_RequestException e self w =
     (if is_RequestException e
      then (Inr (), self, log CRITICAL (''[REQUEST FAILED] '' @ str e) w)
      else (Inl e, self, w))"

text \<open>
  The \<^verbatim>\<open>try\<close> block of \<^verbatim>\<open>send\<close>, with the value of the local variable \<^verbatim>\<open>cookies\<close> as an
  argument. The arguments of \<^verbatim>\<open>requests.get\<close> are evaluated inside the block;
  \<^verbatim>\<open>self.resp\<close> is assigned before \<^verbatim>\<open>self.config.http_success_only\<close> is read and before
  \<^verbatim>\<open>raise_for_status\<close> is called.
\<close>

definition send_request ::
  "env \<Rightarrow> MRequest \<Rightarrow> pyval \<Rightarrow> world \<Rightarrow> (exn + unit) \<times> MRequest \<times> world" where
  "send_request E self cookies0 w =
     (case get_request_kwargs E (timeout self) (useragent self) (MRequest.proxies self)
             (MRequest.headers self) cookies0 (heap w) of
        (Inl e, h') \<Rightarrow> except_RequestException e self (w\<lparr>heap := h'\<rparr>)
      | (Inr kw, h') \<Rightarrow>
          (let w1 = w\<lparr>heap := h', sent := sent w @ [(url self, kw)]\<rparr> in
           case requests_get E (length (sent w)) (url self) kw of
             Inl e \<Rightarrow> except_RequestException e self w1
           | Inr r \<Rightarrow>
               (let self1 = self\<lparr>resp := Some r\<rparr> in
                case config self1 of
                  None \<Rightarrow>
                    except_RequestException
                      (Raise AttributeError ''NoneType object has no attribute http_success_only'')
                      self1 w1
                | Some c \<Rightarrow>
                    if http_success_only c then
                      (case raise_for_status E r of
                         Some e \<Rightarrow> except_RequestException e self1 w1
                       | None \<Rightarrow> (Inr (), self1, w1))
                    else (Inr (), self1, w1))))"

text \<open>
  \<^verbatim>\<open>MRequest.send\<close>. Only the \<^verbatim>\<open>log.info\<close> call is under the test of \<^verbatim>\<open>self.cookies_file\<close>:
  the \<^verbatim>\<open>try\<close> that opens the file follows the \<^verbatim>\<open>if\<close> at the same indentation and always runs.
\<close>

definition send :: "env \<Rightarrow> MRequest \<Rightarrow> world \<Rightarrow> (exn + unit) \<times> MRequest \<times> world" where
  "send E self w =
     (let cookies0 = PList (map PDict (MRequest.cookies self));
          w0 = (if MRequest.cookies_file self \<noteq> '''' then log INFO ''Loading Cookie File'' w
                else w)
      in case load_cookie_file E (MRequest.cookies_file self) cookies0 w0 of
           (cookies1, w1) \<Rightarrow> send_request E self cookies1 w1)"

text \<open>
  Modelled from the spec: the class \<^verbatim>\<open>ThreadPool\<close> of the module \<^verbatim>\<open>.mthreading\<close>, of which
  \<^verbatim>\<open>network.py\<close> uses the constructor \<^verbatim>\<open>ThreadPool(num_threads, timeout)\<close> and the methods
  \<^verbatim>\<open>add_task\<close> and \<^verbatim>\<open>wait_completion\<close>. The spec (4.4) says: a pool has a worker count and a
  queue of submitted callables, dispatched in the order of submission.
\<close>

record ThreadPool =
  num_threads :: int
  pool_timeout :: int
  tasks :: "nat list"

text \<open>Modelled from the spec: a new pool has an empty queue.\<close>

definition new_ThreadPool :: "int \<Rightarrow> int \<Rightarrow> ThreadPool" where
  "new_ThreadPool n t = \<lparr>num_threads = n, pool_timeout = t, tasks = []\<rparr>"

text \<open>
  Modelled from the spec: \<^verbatim>\<open>add_task\<close> puts the callable at the end of the queue. The
  callables submitted here are the bound methods \<^verbatim>\<open>req.send\<close>; a task is written as the
  position of its request in \<^verbatim>\<open>m_requests\<close>.
\<close>

definition add_task :: "ThreadPool \<Rightarrow> nat \<Rightarrow> ThreadPool" where
  "add_task pool i = pool\<lparr>tasks := tasks pool @ [i]\<rparr>"

text \<open>
  Modelled from the spec: the workers run tasks, each task writing its own result slot; the
  pool returns nothing, and nothing a task does interrupts the caller, so an exception that
  leaves \<^verbatim>\<open>send\<close> ends that task only. The runs are taken one after the other, each as a whole,
  in the order in which they complete.
\<close>

fun run_tasks :: "env \<Rightarrow> nat list \<Rightarrow> MRequest list \<Rightarrow> world \<Rightarrow> MRequest list \<times> world" where
  "run_tasks E [] m_requests w = (m_requests, w)"
| "run_tasks E (i # rest) m_requests w =
     (if i < length m_requests then
        (case send E (m_requests ! i) w of
           (outcome, req, w') \<Rightarrow> run_tasks E rest (m_requests[i := req]) w')
      else run_tasks E rest m_requests w)"

text \<open>
  Modelled from the spec: \<^verbatim>\<open>wait_completion\<close> returns when every submitted callable has
  returned or when the timeout has elapsed, and the order of completion is unspecified. The
  argument \<open>completed\<close> lists the tasks that complete before the wait returns, in the order
  they complete; a task runs only if it was submitted, and at most once.
\<close>

definition wait_completion ::
  "env \<Rightarrow> nat list \<Rightarrow> ThreadPool \<Rightarrow> MRequest list \<Rightarrow> world \<Rightarrow> MRequest list \<times> world" where
  "wait_completion E completed pool m_requests w =
     run_tasks E (remdups (filter (\<lambda>i. i \<in> set (tasks pool)) completed)) m_requests w"

text \<open>
  \<^verbatim>\<open>multithread_request(urls, config)\<close>: one \<^verbatim>\<open>MRequest\<close> per URL, one task per request in the
  same order, then the wait; the list \<^verbatim>\<open>m_requests\<close> is returned.
\<close>

definition multithread_request ::
  "env \<Rightarrow> nat list \<Rightarrow> string list \<Rightarrow> configuration option \<Rightarrow> world \<Rightarrow>
   MRequest list \<times> world" where
  "multithread_request E completed urls config0 w =
     (let c = config_or_default E config0;
          pool = new_ThreadPool (number_threads c) (thread_timeout_seconds c);
          m_requests = map (\<lambda>u. MRequest_init E u (Some c)) urls;
          pool1 = fold (\<lambda>i p. add_task p i) [0..<length m_requests] pool
      in wait_completion E completed pool1 m_requests w)"

section \<open>Changes of the store\<close>

text \<open>
  How a store may differ from an earlier one when the only changes are new dictionaries and
  runs of the strip loop: every dictionary of the earlier store is still there, and it is
  either as it was or as the strip loop leaves it.
\<close>

definition stripped_only :: "heap \<Rightarrow> heap \<Rightarrow> bool" where
  "stripped_only h h' =
     (length h \<le> length h' \<and>
      list_all2 (\<lambda>d d'. d' = d \<or> d' = strip_attrs FILTERED_ATTR d) h (take (length h) h'))"

section \<open>A concrete world\<close>

text \<open>
  One configuration, one store and one choice of the outside world, on which the theorems
  below are evaluated. The configured cookie record carries the attribute \<^verbatim>\<open>hostOnly\<close>, as
  a browser export does; in the second store it carries \<^verbatim>\<open>firstPartyDomain\<close> instead, which
  the strip loop does not know. No cookie file can be read. \<^verbatim>\<open>create_cookie\<close> needs the
  arguments \<^verbatim>\<open>name\<close> and \<^verbatim>\<open>value\<close> and raises \<^verbatim>\<open>TypeError\<close> for a keyword it does not have.
  The transport refuses the connection to \<^verbatim>\<open>http://down.example\<close>, answers
  \<^verbatim>\<open>http://gone.example\<close> with status 404 and every other URL with status 200;
  \<^verbatim>\<open>raise_for_status\<close> raises on the statuses 400 to 599. Decoding keeps the bytes, except
  that \<^verbatim>\<open>shift_jis\<close> reads the byte 0x5C as the yen sign (two bytes in UTF-8) and that the codec
  \<^verbatim>\<open>undefined\<close> raises. The scan for declared encodings knows two declarations.
\<close>

definition example_cookie :: dict where
  "example_cookie = [(''name'', PStr ''sid''), (''value'', PStr ''abc''), (''hostOnly'', PBool False)]"

definition foreign_cookie :: dict where
  "foreign_cookie =
     [(''name'', PStr ''sid''), (''value'', PStr ''abc''), (''firstPartyDomain'', PStr '''')]"

definition cookie_arguments :: "string list" where
  "cookie_arguments =
     [''version'', ''name'', ''value'', ''port'', ''domain'', ''path'', ''secure'', ''expires'',
      ''discard'', ''comment'', ''comment_url'', ''rest'', ''rfc2109'']"

definition example_config :: configuration where
  "example_config =
     \<lparr>browser_user_agent = ''newspaper'',
      request_timeout = 7,
      configuration.proxies = [],
      configuration.headers = None,
      configuration.cookies = [0],
      configuration.cookies_file = '''',
      http_success_only = True,
      ignored_content_types_defaults = [''application/pdf'' \<mapsto> ''[PDF content]''],
      number_threads = 5,
      thread_timeout_seconds = 1\<rparr>"

definition example_world :: world where
  "example_world = \<lparr>heap = [example_cookie], logs = [], sent = []\<rparr>"

definition foreign_world :: world where
  "foreign_world = \<lparr>heap = [foreign_cookie], logs = [], sent = []\<rparr>"

definition page :: response where
  "page = \<lparr>status_code = 200,
           resp_headers = [''content-type'' \<mapsto> ''text/html; charset=utf-8''],
           encoding = Some ''utf-8'',
           content = ''<html>ok</html>''\<rparr>"

definition not_found :: response where
  "not_found = \<lparr>status_code = 404,
                resp_headers = [''content-type'' \<mapsto> ''text/html; charset=utf-8''],
                encoding = Some ''utf-8'',
                content = ''<html>gone</html>''\<rparr>"

definition example_env :: env where
  "example_env =
     \<lparr>default_Configuration = example_config,
      open_json_load = (\<lambda>path. Inl (Raise FileNotFoundError ''No such file or directory'')),
      create_cookie =
        (\<lambda>kw. if ''name'' \<in> set (map fst kw) \<and> ''value'' \<in> set (map fst kw) \<and>
                 list_all (\<lambda>k. k \<in> set cookie_arguments) (map fst kw)
              then Inr kw
              else Inl (Raise TypeError ''create_cookie() got unexpected keyword arguments'')),
      requests_get =
        (\<lambda>n u kw.
           if u = ''http://down.example'' then Inl (Raise ConnectionError ''Connection refused'')
           else if u = ''http://gone.example'' then Inr not_found
           else Inr page),
      raise_for_status =
        (\<lambda>r. if 400 \<le> status_code r \<and> status_code r < 600
             then Some (Raise HTTPError ''404 Client Error'') else None),
      decode =
        (\<lambda>enc bytes.
           if enc = Some ''undefined'' then Inl (Raise UnicodeError ''undefined encoding'')
           else if enc = Some ''shift_jis''
             then Inr (concat (map (\<lambda>c. if c = CHR 0x5C then [CHR 0xC2, CHR 0xA5] else [c]) bytes))
           else Inr bytes),
      get_encodings_from_content =
        (\<lambda>s. Inr (if contains ''<meta charset=shift_jis>'' s then [''shift_jis'']
                  else if contains ''<meta charset=undefined>'' s then [''undefined'']
                  else []))\<rparr>"

section \<open>Evaluation on the concrete world\<close>

lemmas example_defs = example_env_def example_config_def example_world_def example_cookie_def
  foreign_world_def foreign_cookie_def cookie_arguments_def
  page_def not_found_def

lemmas batch_eval = multithread_request_def wait_completion_def new_ThreadPool_def add_task_def
  MRequest_init_def send_def send_request_def load_cookie_file_def except_RequestException_def
  config_or_default_def get_request_kwargs_def FILTERED_ATTR_def log_def Let_def

lemmas fetch_eval = get_html_def get_html_2XX_only_def fetch_html_def load_cookie_file_def
  config_or_default_def get_request_kwargs_def get_html_from_response_def response_text_def
  FILTERED_ATTR_def FAIL_ENCODING_def log_def Let_def

section \<open>Cookie stripping\<close>

lemma strip_attrs_filter:
  "strip_attrs attrs cookie = filter (\<lambda>kv. fst kv \<notin> set attrs) cookie"
proof (induction attrs arbitrary: cookie)
  case Nil
  show ?case by simp
next
  case (Cons attr attrs)
  have del: "AList.delete attr cookie = filter (\<lambda>kv. fst kv \<noteq> attr) cookie"
    by (induction cookie) (auto simp: AList.delete_eq)
  have absent: "attr \<notin> set (map fst cookie) \<Longrightarrow> filter (\<lambda>kv. fst kv \<noteq> attr) cookie = cookie"
    by (induction cookie) auto
  show ?case
    using absent by (auto simp: Cons.IH del intro: filter_cong)
qed

text \<open>
  C10. Applying the attribute-strip rule (the deletion of the keys \<^verbatim>\<open>hostOnly\<close>, \<^verbatim>\<open>session\<close>,
  \<^verbatim>\<open>storeId\<close>, \<^verbatim>\<open>id\<close>, \<^verbatim>\<open>sameSite\<close>, \<^verbatim>\<open>httpOnly\<close> and \<^verbatim>\<open>expirationDate\<close> that are
  present) twice to a cookie record gives the same record as applying it once.
\<close>

theorem strip_attrs_idempotent:
  "strip_attrs FILTERED_ATTR (strip_attrs FILTERED_ATTR cookie) = strip_attrs FILTERED_ATTR cookie"
  by (simp add: strip_attrs_filter)

text \<open>On the example cookie the rule removes \<^verbatim>\<open>hostOnly\<close>, and a second run changes nothing.\<close>

theorem strip_attrs_idempotent_witness:
  "strip_attrs FILTERED_ATTR (strip_attrs FILTERED_ATTR example_cookie)
     = [(''name'', PStr ''sid''), (''value'', PStr ''abc'')]"
  using strip_attrs_idempotent [of example_cookie]
  by (simp add: example_cookie_def FILTERED_ATTR_def)

section \<open>The response normalizer: theorems\<close>

text \<open>
  C8. When the content-type header of the response is a key of
  \<^verbatim>\<open>config.ignored_content_types_defaults\<close>, the normalizer returns the literal text the key
  maps to, whatever the body bytes and the encoding are, and leaves the response as it is.
\<close>

theorem ignored_content_type_short_circuit:
  assumes "resp_headers r ''content-type'' = Some ct"
      and "ignored_content_types_defaults cfg ct = Some literal"
  shows "get_html_from_response E r cfg = (Inr (Text literal), r)"
  using assms by (simp add: get_html_from_response_def)

text \<open>A PDF response with the mapping of the example configuration.\<close>

theorem ignored_content_type_short_circuit_witness:
  "resp_headers \<lparr>status_code = 200, resp_headers = [''content-type'' \<mapsto> ''application/pdf''],
                 encoding = None, content = ''%PDF-1.4''\<rparr> ''content-type''
     = Some ''application/pdf'' \<and>
   ignored_content_types_defaults example_config ''application/pdf'' = Some ''[PDF content]'' \<and>
   fst (get_html_from_response example_env
          \<lparr>status_code = 200, resp_headers = [''content-type'' \<mapsto> ''application/pdf''],
           encoding = None, content = ''%PDF-1.4''\<rparr> example_config)
     = Inr (Text ''[PDF content]'')"
proof -
  let ?r = "\<lparr>status_code = 200, resp_headers = [''content-type'' \<mapsto> ''application/pdf''],
             encoding = None, content = ''%PDF-1.4''\<rparr>"
  have h1: "resp_headers ?r ''content-type'' = Some ''application/pdf''" by simp
  have h2: "ignored_content_types_defaults example_config ''application/pdf''
              = Some ''[PDF content]''"
    by (simp add: example_config_def)
  show ?thesis
    using h1 h2 ignored_content_type_short_circuit [OF h1 h2, of example_env] by simp
qed




text \<open>
  C5, as the code has it. For a response whose encoding is \<open>FAIL_ENCODING\<close> and whose
  content-type header is present and not an ignored type. When the header contains
  \<^verbatim>\<open>charset\<close>, the normalizer returns the raw bytes of the body without decoding them (the
  empty string for an empty body): it does not use the charset the header names. When the
  header does not contain \<^verbatim>\<open>charset\<close>, it scans the body text (decoded with
  \<open>FAIL_ENCODING\<close>) for declared encodings: if there is one, it assigns the first to
  \<^verbatim>\<open>response.encoding\<close> and returns the text decoded with it, or raises what that decoding
  raises; if there is none, it returns the raw bytes; and what the first decoding or the scan
  raises leaves the function.
\<close>

theorem sentinel_encoding_fallback:
  assumes "encoding r = Some FAIL_ENCODING"
      and "resp_headers r ''content-type'' = Some ct"
      and "ignored_content_types_defaults cfg ct = None"
  shows "(contains ''charset'' ct \<longrightarrow>
            get_html_from_response E r cfg = (Inr (or_empty (Bytes (content r))), r)) \<and>
         (\<not> contains ''charset'' ct \<longrightarrow>
            (\<forall>e. decode E (Some FAIL_ENCODING) (content r) = Inl e \<longrightarrow>
                 get_html_from_response E r cfg = (Inl e, r)) \<and>
            (\<forall>t. decode E (Some FAIL_ENCODING) (content r) = Inr t \<longrightarrow>
               (\<forall>e. get_encodings_from_content E t = Inl e \<longrightarrow>
                    get_html_from_response E r cfg = (Inl e, r)) \<and>
               (get_encodings_from_content E t = Inr [] \<longrightarrow>
                    get_html_from_response E r cfg = (Inr (or_empty (Bytes (content r))), r)) \<and>
               (\<forall>enc rest. get_encodings_from_content E t = Inr (enc # rest) \<longrightarrow>
                  (\<forall>s. decode E (Some enc) (content r) = Inr s \<longrightarrow>
                       get_html_from_response E r cfg =
                         (Inr (Text s), r\<lparr>encoding := Some enc\<rparr>)) \<and>
                  (\<forall>e. decode E (Some enc) (content r) = Inl e \<longrightarrow>
                       get_html_from_response E r cfg =
                         (Inl e, r\<lparr>encoding := Some enc\<rparr>)))))"
  using assms by (auto simp: get_html_from_response_def response_text_def Let_def)

text \<open>
  The claim C5 as stated says that a charset declared in the header is used to decode, and
  that a declaration found in the body is. A response with the header
  \<^verbatim>\<open>text/html; charset=ISO-8859-1\<close>, for which the transport reports the encoding
  \<open>FAIL_ENCODING\<close>, comes back as undecoded bytes; and a \<^verbatim>\<open>text/html\<close> response whose body
  declares the charset \<^verbatim>\<open>undefined\<close> is not decoded but raises \<^verbatim>\<open>UnicodeError\<close>.
\<close>

theorem charset_in_header_not_decoded_counterexample:
  "encoding \<lparr>status_code = 200, resp_headers = [''content-type'' \<mapsto> ''text/html; charset=ISO-8859-1''],
             encoding = Some ''ISO-8859-1'', content = ''<html>ok</html>''\<rparr> = Some FAIL_ENCODING \<and>
   fst (get_html_from_response example_env
          \<lparr>status_code = 200, resp_headers = [''content-type'' \<mapsto> ''text/html; charset=ISO-8859-1''],
           encoding = Some ''ISO-8859-1'', content = ''<html>ok</html>''\<rparr> example_config)
     = Inr (Bytes ''<html>ok</html>'') \<and>
   fst (get_html_from_response example_env
          \<lparr>status_code = 200, resp_headers = [''content-type'' \<mapsto> ''text/html''],
           encoding = Some ''ISO-8859-1'', content = ''<meta charset=undefined>''\<rparr> example_config)
     = Inl (Raise UnicodeError ''undefined encoding'')"
  by (simp add: get_html_from_response_def example_defs FAIL_ENCODING_def response_text_def)

text \<open>
  A body that declares \<^verbatim>\<open>shift_jis\<close> under a header without charset is decoded with it: the
  byte 0x5C after the declaration comes back as the yen sign, and the response carries the
  new encoding.
\<close>

theorem sentinel_encoding_fallback_witness:
  "get_html_from_response example_env
     \<lparr>status_code = 200, resp_headers = [''content-type'' \<mapsto> ''text/html''],
      encoding = Some ''ISO-8859-1'', content = ''<meta charset=shift_jis>'' @ [CHR 0x5C]\<rparr>
     example_config
   = (Inr (Text (''<meta charset=shift_jis>'' @ [CHR 0xC2, CHR 0xA5])),
      \<lparr>status_code = 200, resp_headers = [''content-type'' \<mapsto> ''text/html''],
       encoding = Some ''shift_jis'', content = ''<meta charset=shift_jis>'' @ [CHR 0x5C]\<rparr>)"
proof -
  let ?r = "\<lparr>status_code = 200, resp_headers = [''content-type'' \<mapsto> ''text/html''],
             encoding = Some ''ISO-8859-1'', content = ''<meta charset=shift_jis>'' @ [CHR 0x5C]\<rparr>"
  have h1: "encoding ?r = Some FAIL_ENCODING" by (simp add: FAIL_ENCODING_def)
  have h2: "resp_headers ?r ''content-type'' = Some ''text/html''" by simp
  have h3: "ignored_content_types_defaults example_config ''text/html'' = None"
    by (simp add: example_config_def)
  have h4: "\<not> contains ''charset'' ''text/html''" by simp
  have h5: "decode example_env (Some FAIL_ENCODING) (content ?r) = Inr (content ?r)"
    by (simp add: example_env_def FAIL_ENCODING_def)
  have h6: "get_encodings_from_content example_env (content ?r) = Inr [''shift_jis'']"
    by (simp add: example_env_def)
  have h7: "decode example_env (Some ''shift_jis'') (content ?r)
              = Inr (''<meta charset=shift_jis>'' @ [CHR 0xC2, CHR 0xA5])"
    by (simp add: example_env_def)
  from sentinel_encoding_fallback [OF h1 h2 h3, of example_env] h4 h5 h6 h7
  have "get_html_from_response example_env ?r example_config =
          (Inr (Text (''<meta charset=shift_jis>'' @ [CHR 0xC2, CHR 0xA5])),
           ?r\<lparr>encoding := Some ''shift_jis''\<rparr>)"
    by blast
  then show ?thesis by simp
qed

section \<open>Single fetch: theorems\<close>

lemma load_cookie_file_frame:
  assumes "load_cookie_file E path cks w = (v, w1)"
  shows "sent w1 = sent w \<and> (\<exists>new. logs w1 = logs w @ new)"
  using assms
  by (auto simp: load_cookie_file_def log_def split: sum.splits prod.splits)

lemma load_cookie_file_env:
  "load_cookie_file (E\<lparr>requests_get := g, raise_for_status := f\<rparr>) path cks w =
   load_cookie_file E path cks w"
  by (simp add: load_cookie_file_def)

lemma get_html_from_response_env:
  "get_html_from_response (E\<lparr>requests_get := g, raise_for_status := f\<rparr>) r cfg =
   get_html_from_response E r cfg"
  by (simp add: get_html_from_response_def response_text_def Let_def
        split: option.splits sum.splits)

lemma config_or_default_env:
  "config_or_default (E\<lparr>requests_get := g, raise_for_status := f\<rparr>) config0 =
   config_or_default E config0"
  by (simp add: config_or_default_def split: option.splits)

text \<open>
  C9. With a response supplied by the caller, \<^verbatim>\<open>get_html_2XX_only\<close> returns what the
  normalizer returns for that response, hands no request to the transport, and does not depend
  on \<^verbatim>\<open>requests.get\<close> or \<^verbatim>\<open>raise_for_status\<close> at all: the result is the same however the two
  behave, so no status error is raised on this path, whatever \<^verbatim>\<open>config.http_success_only\<close>
  and the status of the response are.
\<close>

theorem supplied_response_skips_request:
  "fst (get_html_2XX_only E u config0 (Some r) w) =
     fst (get_html_from_response E r (config_or_default E config0)) \<and>
   sent (snd (snd (get_html_2XX_only E u config0 (Some r) w))) = sent w \<and>
   get_html_2XX_only (E\<lparr>requests_get := g, raise_for_status := f\<rparr>) u config0 (Some r) w =
     get_html_2XX_only E u config0 (Some r) w"
proof -
  have body: "fetch_html E u c (Some r) cks w1 =
                (fst (get_html_from_response E r c), Some (snd (get_html_from_response E r c)), w1)"
    for E c cks w1
    by (simp add: fetch_html_def split: prod.splits)
  have a: "fst (get_html_2XX_only E u config0 (Some r) w) =
             fst (get_html_from_response E r (config_or_default E config0))"
    by (simp add: get_html_2XX_only_def Let_def body split: prod.splits)
  have b: "sent (snd (snd (get_html_2XX_only E u config0 (Some r) w))) = sent w"
    by (auto simp: get_html_2XX_only_def Let_def body log_def split: prod.splits
             dest!: load_cookie_file_frame)
  have c: "get_html_2XX_only (E\<lparr>requests_get := g, raise_for_status := f\<rparr>) u config0 (Some r) w =
             get_html_2XX_only E u config0 (Some r) w"
    by (simp add: get_html_2XX_only_def Let_def body load_cookie_file_env
          get_html_from_response_env config_or_default_env split: prod.splits)
  show ?thesis using a b c by blast
qed

text \<open>A supplied 404 response under \<^verbatim>\<open>http_success_only\<close> is normalized and returned.\<close>

theorem supplied_response_skips_request_witness:
  "http_success_only example_config \<and>
   raise_for_status example_env not_found \<noteq> None \<and>
   get_html_2XX_only example_env ''http://gone.example'' (Some example_config) (Some not_found)
     example_world = (Inr (Text ''<html>gone</html>''), Some not_found, example_world)"
  using supplied_response_skips_request [of example_env "''http://gone.example''"
          "Some example_config" not_found example_world]
  by (simp add: example_defs fetch_eval)




text \<open>
  C7. When \<^verbatim>\<open>config.cookies_file\<close> is not empty, both \<^verbatim>\<open>get_html_2XX_only\<close> and
  \<^verbatim>\<open>MRequest.send\<close> try to load the file. If the load fails, the failure is logged as an error
  and the call goes on exactly as the rest of the function does with \<^verbatim>\<open>config.cookies\<close>: the
  load failure itself is never raised. If the load succeeds, the call goes on with the loaded
  value.
\<close>

theorem cookie_file_failure_falls_back:
  assumes "configuration.cookies_file (config_or_default E config0) \<noteq> ''''"
  shows "(\<forall>e. open_json_load E (configuration.cookies_file (config_or_default E config0)) = Inl e \<longrightarrow>
            get_html_2XX_only E u config0 response w =
              fetch_html E u (config_or_default E config0) response
                (PList (map PDict (configuration.cookies (config_or_default E config0))))
                (log ERROR (''Failed loading cookie file at: ''
                              @ configuration.cookies_file (config_or_default E config0)
                              @ '' with error: '' @ str e)
                   (log INFO ''Loading Cookie File'' w)) \<and>
            send E (MRequest_init E u config0) w =
              send_request E (MRequest_init E u config0)
                (PList (map PDict (configuration.cookies (config_or_default E config0))))
                (log ERROR (''Failed loading cookie file at: ''
                              @ configuration.cookies_file (config_or_default E config0)
                              @ '' with error: '' @ str e)
                   (log INFO ''Loading Cookie File'' w))) \<and>
         (\<forall>j. open_json_load E (configuration.cookies_file (config_or_default E config0)) = Inr j \<longrightarrow>
            get_html_2XX_only E u config0 response w =
              fetch_html E u (config_or_default E config0) response
                (fst (json_load j (heap w)))
                ((log INFO ''Loading Cookie File'' w)\<lparr>heap := snd (json_load j (heap w))\<rparr>) \<and>
            send E (MRequest_init E u config0) w =
              send_request E (MRequest_init E u config0)
                (fst (json_load j (heap w)))
                ((log INFO ''Loading Cookie File'' w)\<lparr>heap := snd (json_load j (heap w))\<rparr>))"
  using assms
  by (auto simp: get_html_2XX_only_def send_def load_cookie_file_def MRequest_init_def Let_def
        log_def split: prod.splits)

text \<open>A missing cookie file: the page is fetched, with the configured cookie in the jar.\<close>

theorem cookie_file_failure_falls_back_witness:
  "configuration.cookies_file (example_config\<lparr>configuration.cookies_file := ''cookies.json''\<rparr>) \<noteq> '''' \<and>
   open_json_load example_env ''cookies.json''
     = Inl (Raise FileNotFoundError ''No such file or directory'') \<and>
   fst (get_html_2XX_only example_env ''http://up.example''
          (Some (example_config\<lparr>configuration.cookies_file := ''cookies.json''\<rparr>)) None
          example_world) = Inr (Text ''<html>ok</html>'') \<and>
   map (kw_cookies \<circ> snd)
     (sent (snd (snd (get_html_2XX_only example_env ''http://up.example''
          (Some (example_config\<lparr>configuration.cookies_file := ''cookies.json''\<rparr>)) None
          example_world)))) = [[[(''name'', PStr ''sid''), (''value'', PStr ''abc'')]]]"
proof -
  let ?c = "example_config\<lparr>configuration.cookies_file := ''cookies.json''\<rparr>"
  have h: "configuration.cookies_file (config_or_default example_env (Some ?c)) \<noteq> ''''"
    by (simp add: config_or_default_def)
  have f: "open_json_load example_env
             (configuration.cookies_file (config_or_default example_env (Some ?c)))
           = Inl (Raise FileNotFoundError ''No such file or directory'')"
    by (simp add: example_env_def)
  from cookie_file_failure_falls_back [OF h, of "''http://up.example''" None example_world] f
  have "get_html_2XX_only example_env ''http://up.example'' (Some ?c) None example_world =
          fetch_html example_env ''http://up.example'' (config_or_default example_env (Some ?c)) None
            (PList (map PDict (configuration.cookies (config_or_default example_env (Some ?c)))))
            (log ERROR (''Failed loading cookie file at: ''
                          @ configuration.cookies_file (config_or_default example_env (Some ?c))
                          @ '' with error: ''
                          @ str (Raise FileNotFoundError ''No such file or directory''))
               (log INFO ''Loading Cookie File'' example_world))"
    by blast
  then show ?thesis
    by (simp add: example_defs fetch_html_def config_or_default_def get_request_kwargs_def
          get_html_from_response_def response_text_def FILTERED_ATTR_def FAIL_ENCODING_def
          log_def Let_def)
qed

section \<open>The batch: theorems\<close>

lemma except_RequestException_cases:
  assumes "except_RequestException e self w = (out, self', w')"
  shows "self' = self \<and> heap w' = heap w \<and> sent w' = sent w \<and>
         (if is_RequestException e
          then out = Inr () \<and> logs w' = logs w @ [(CRITICAL, ''[REQUEST FAILED] '' @ str e)]
          else out = Inl e \<and> logs w' = logs w)"
  using assms by (auto simp: except_RequestException_def log_def split: if_splits)

lemma send_request_keeps_fields:
  assumes "send_request E self cookies0 w = (out, self', w')"
  shows "self' = self \<or> (\<exists>r. self' = self\<lparr>resp := Some r\<rparr>)"
  using assms
  by (auto simp: send_request_def Let_def split: prod.splits sum.splits option.splits if_splits
           dest!: except_RequestException_cases)

lemma send_keeps_fields:
  assumes "send E self w = (out, self', w')"
  shows "self' = self \<or> (\<exists>r. self' = self\<lparr>resp := Some r\<rparr>)"
  using assms
  by (auto simp: send_def Let_def split: prod.splits dest: send_request_keeps_fields)

lemma send_url: "send E self w = (out, self', w') \<Longrightarrow> url self' = url self"
  by (drule send_keeps_fields) auto

lemma run_tasks_urls: "map url (fst (run_tasks E sched m_requests w)) = map url m_requests"
proof (induction sched arbitrary: m_requests w)
  case Nil
  show ?case by simp
next
  case (Cons i rest)
  show ?case
  proof (cases "i < length m_requests")
    case False
    then show ?thesis by (simp add: Cons.IH)
  next
    case True
    obtain out req w' where s: "send E (m_requests ! i) w = (out, req, w')"
      by (cases "send E (m_requests ! i) w") auto
    have "url req = url (m_requests ! i)" using s by (rule send_url)
    then have "map url (m_requests[i := req]) = map url m_requests"
      using True by (simp add: map_update list_update_same_conv)
    then show ?thesis using True s by (simp add: Cons.IH)
  qed
qed

text \<open>
  C1. For every list of URLs (the empty list too) and every order of completion,
  \<^verbatim>\<open>multithread_request\<close> returns one \<^verbatim>\<open>MRequest\<close> per URL, and their \<^verbatim>\<open>url\<close> attributes, read in
  order, are the list of URLs.
\<close>

theorem multithread_request_preserves_order:
  "map url (fst (multithread_request E completed urls config0 w)) = urls \<and>
   length (fst (multithread_request E completed urls config0 w)) = length urls"
proof -
  have init: "map url (map (\<lambda>u. MRequest_init E u c) urls) = urls" for c
    by (induction urls) (simp_all add: MRequest_init_def Let_def)
  have u: "map url (fst (multithread_request E completed urls config0 w)) = urls"
    unfolding multithread_request_def wait_completion_def Let_def run_tasks_urls
    by (rule init)
  have "length (fst (multithread_request E completed urls config0 w)) = length urls"
    using u by (metis length_map)
  then show ?thesis using u by blast
qed

text \<open>Three URLs whose tasks complete in the order third, first, second.\<close>

theorem multithread_request_preserves_order_witness:
  "map url (fst (multithread_request example_env [2, 0, 1]
                   [''http://gone.example'', ''http://down.example'', ''http://up.example'']
                   (Some example_config) example_world))
   = [''http://gone.example'', ''http://down.example'', ''http://up.example'']"
  using multithread_request_preserves_order [of example_env "[2, 0, 1]"
          "[''http://gone.example'', ''http://down.example'', ''http://up.example'']"
          "Some example_config" example_world]
  by (rule conjunct1)

lemma tasks_fold_add_task: "tasks (fold (\<lambda>i p. add_task p i) xs pool) = tasks pool @ xs"
  by (induction xs arbitrary: pool) (simp_all add: add_task_def)

lemma multithread_request_unfold:
  "multithread_request E completed urls config0 w =
     run_tasks E (remdups (filter (\<lambda>i. i < length urls) completed))
       (map (\<lambda>u. MRequest_init E u (Some (config_or_default E config0))) urls) w"
  by (simp add: multithread_request_def wait_completion_def Let_def tasks_fold_add_task
        new_ThreadPool_def)

text \<open>
  C2 says that in the batch a task whose run meets a transport failure or, under
  \<^verbatim>\<open>http_success_only\<close>, a non-2XX status is left without a result, that the failure is
  logged at critical level and that nothing is raised. The code does not do this for the
  status: \<^verbatim>\<open>send\<close> assigns \<^verbatim>\<open>self.resp\<close> before it calls \<^verbatim>\<open>raise_for_status\<close>, and the handler
  only logs. Evaluated on a batch of one URL that the transport answers with status 404,
  with \<^verbatim>\<open>http_success_only\<close> set: \<^verbatim>\<open>raise_for_status\<close> raises for the response, the failure
  is logged at critical level, and the task holds the 404 response. On the same URL the
  single fetch \<^verbatim>\<open>get_html_2XX_only\<close> raises the status error and \<^verbatim>\<open>get_html\<close> returns the
  empty string, and in the batch a refused connection does leave the result absent.
\<close>

theorem send_keeps_non_2XX_response:
  "http_success_only example_config \<and>
   raise_for_status example_env not_found = Some (Raise HTTPError ''404 Client Error'') \<and>
   map resp (fst (multithread_request example_env [0] [''http://gone.example'']
                    (Some example_config) example_world)) = [Some not_found] \<and>
   logs (snd (multithread_request example_env [0] [''http://gone.example'']
                (Some example_config) example_world)) =
     [(ERROR, ''Failed loading cookie file at:  with error: No such file or directory''),
      (CRITICAL, ''[REQUEST FAILED] 404 Client Error'')] \<and>
   fst (get_html_2XX_only example_env ''http://gone.example'' (Some example_config) None
          example_world) = Inl (Raise HTTPError ''404 Client Error'') \<and>
   fst (get_html example_env ''http://gone.example'' (Some example_config) None example_world)
     = Inr (Text '''') \<and>
   map resp (fst (multithread_request example_env [0] [''http://down.example'']
                    (Some example_config) example_world)) = [None]"
proof -
  have batch:
    "map resp (fst (multithread_request example_env [0] [''http://gone.example'']
                    (Some example_config) example_world)) = [Some not_found]"
    "logs (snd (multithread_request example_env [0] [''http://gone.example'']
                (Some example_config) example_world)) =
       [(ERROR, ''Failed loading cookie file at:  with error: No such file or directory''),
        (CRITICAL, ''[REQUEST FAILED] 404 Client Error'')]"
    "map resp (fst (multithread_request example_env [0] [''http://down.example'']
                    (Some example_config) example_world)) = [None]"
    by (simp_all add: example_defs batch_eval)
  have single:
    "fst (get_html_2XX_only example_env ''http://gone.example'' (Some example_config) None
          example_world) = Inl (Raise HTTPError ''404 Client Error'')"
    "fst (get_html example_env ''http://gone.example'' (Some example_config) None example_world)
       = Inr (Text '''')"
    by (simp_all add: example_defs fetch_eval)
  have "http_success_only example_config"
    "raise_for_status example_env not_found = Some (Raise HTTPError ''404 Client Error'')"
    by (simp_all add: example_defs)
  then show ?thesis using batch single by simp
qed

section \<open>The configuration and the store\<close>

lemma stripped_only_nth:
  "stripped_only h h' \<longleftrightarrow>
     length h \<le> length h' \<and>
     (\<forall>a<length h. h' ! a = h ! a \<or> h' ! a = strip_attrs FILTERED_ATTR (h ! a))"
  by (auto simp: stripped_only_def list_all2_conv_all_nth)

lemma stripped_only_refl: "stripped_only h h"
  by (simp add: stripped_only_nth)

lemma stripped_only_trans:
  assumes "stripped_only h1 h2" and "stripped_only h2 h3"
  shows "stripped_only h1 h3"
  unfolding stripped_only_nth
proof (intro conjI allI impI)
  show "length h1 \<le> length h3" using assms by (simp add: stripped_only_nth)
next
  fix a assume a: "a < length h1"
  then have a2: "a < length h2" using assms(1) by (simp add: stripped_only_nth)
  have s12: "h2 ! a = h1 ! a \<or> h2 ! a = strip_attrs FILTERED_ATTR (h1 ! a)"
    using assms(1) a by (simp add: stripped_only_nth)
  have s23: "h3 ! a = h2 ! a \<or> h3 ! a = strip_attrs FILTERED_ATTR (h2 ! a)"
    using assms(2) a2 by (simp add: stripped_only_nth)
  show "h3 ! a = h1 ! a \<or> h3 ! a = strip_attrs FILTERED_ATTR (h1 ! a)"
    using s12 s23 by (auto simp: strip_attrs_filter)
qed

lemma stripped_only_append: "stripped_only h (h @ ext)"
  by (simp add: stripped_only_nth nth_append)

lemma json_load_appends:
  "\<exists>ext. snd (json_load j h) = h @ ext"
  "\<exists>ext. snd (json_load_items js h) = h @ ext"
  "\<exists>ext. snd (json_load_pairs kvs d h) = h @ ext"
proof (induction j h and js h and kvs d h rule: json_load_json_load_items_json_load_pairs.induct)
  case (5 js h)
  then show ?case by (cases "json_load_items js h") auto
next
  case (6 kvs h)
  then obtain ext where "snd (json_load_pairs kvs [] h) = h @ ext" by blast
  then show ?case by (cases "json_load_pairs kvs [] h") auto
next
  case (8 j js h)
  obtain v h1 where l1: "json_load j h = (v, h1)" by (cases "json_load j h") auto
  obtain e1 where e1: "h1 = h @ e1" using 8(1) l1 by auto
  obtain e2 where e2: "snd (json_load_items js h1) = h1 @ e2" using 8(2) [OF l1 [symmetric]] by blast
  show ?case using l1 e1 e2 by (cases "json_load_items js h1") auto
next
  case (10 k j kvs d h)
  obtain v h1 where l1: "json_load j h = (v, h1)" by (cases "json_load j h") auto
  obtain e1 where e1: "h1 = h @ e1" using 10(1) l1 by auto
  obtain e2 where e2: "snd (json_load_pairs kvs (AList.update k v d) h1) = h1 @ e2"
    using 10(2) [OF l1 [symmetric]] by blast
  show ?case using l1 e1 e2 by simp
qed simp_all

lemma load_cookie_file_heap:
  assumes "load_cookie_file E path cks w = (v, w1)"
  shows "stripped_only (heap w) (heap w1)"
proof (cases "open_json_load E path")
  case (Inl e)
  then show ?thesis using assms by (auto simp: load_cookie_file_def log_def stripped_only_refl)
next
  case (Inr j)
  obtain ext where "snd (json_load j (heap w)) = heap w @ ext"
    using json_load_appends(1) by blast
  then show ?thesis
    using assms Inr by (auto simp: load_cookie_file_def stripped_only_append split: prod.splits)
qed

lemma strip_cookie_heap:
  assumes "strip_cookie h v = Inr h1"
  shows "stripped_only h h1"
proof (cases v)
  case (PDict a)
  then have h1: "h1 = h[a := strip_attrs FILTERED_ATTR (h ! a)]" using assms by simp
  have "h1 ! b = h ! b \<or> h1 ! b = strip_attrs FILTERED_ATTR (h ! b)" if "b < length h" for b
    using that unfolding h1 by (cases "b = a") simp_all
  then show ?thesis by (simp add: stripped_only_nth h1)
qed (use assms in simp_all)

lemma set_cookies_heap:
  "set_cookies E items jar h = (res, h') \<Longrightarrow> stripped_only h h'"
proof (induction items arbitrary: jar h)
  case Nil
  then show ?case by (simp add: stripped_only_refl)
next
  case (Cons cookie rest)
  show ?case
  proof (cases "strip_cookie h cookie")
    case (Inl e)
    then show ?thesis using Cons.prems by (simp add: stripped_only_refl)
  next
    case (Inr h1)
    note s1 = strip_cookie_heap [OF Inr]
    show ?thesis
    proof (cases "create_cookie E (kwargs_of h1 cookie)")
      case (Inl e)
      then show ?thesis using Cons.prems Inr s1 by simp
    next
      case c: (Inr my_cookie)
      then have "set_cookies E rest (jar @ [my_cookie]) h1 = (res, h')"
        using Cons.prems Inr by simp
      from Cons.IH [OF this] s1 show ?thesis by (rule stripped_only_trans [rotated])
    qed
  qed
qed

lemma get_request_kwargs_heap:
  assumes "get_request_kwargs E t ua px hs cks h = (res, h')"
  shows "stripped_only h h'"
proof (cases "py_iter h cks")
  case (Inl e)
  then show ?thesis using assms by (simp add: get_request_kwargs_def stripped_only_refl)
next
  case (Inr items)
  obtain jres h1 where s: "set_cookies E items [] h = (jres, h1)"
    by (cases "set_cookies E items [] h") auto
  have "h' = h1" using assms Inr s by (auto simp: get_request_kwargs_def split: sum.splits)
  then show ?thesis using set_cookies_heap [OF s] by simp
qed

lemma fetch_html_heap:
  assumes "fetch_html E u c response cks w = (res, r', w')"
  shows "stripped_only (heap w) (heap w')"
proof (cases response)
  case (Some r)
  then show ?thesis
    using assms by (auto simp: fetch_html_def stripped_only_refl split: prod.splits)
next
  case None
  obtain kres h1 where k: "get_request_kwargs E (request_timeout c) (browser_user_agent c)
      (configuration.proxies c) (configuration.headers c) cks (heap w) = (kres, h1)"
    by (cases "get_request_kwargs E (request_timeout c) (browser_user_agent c)
      (configuration.proxies c) (configuration.headers c) cks (heap w)") auto
  have "heap w' = h1"
    using assms None k
    by (auto simp: fetch_html_def Let_def split: sum.splits prod.splits option.splits if_splits)
  then show ?thesis using get_request_kwargs_heap [OF k] by simp
qed

lemma get_html_2XX_only_heap:
  assumes "get_html_2XX_only E u config0 response w = (res, r', w')"
  shows "stripped_only (heap w) (heap w')"
proof (cases "configuration.cookies_file (config_or_default E config0) = ''''")
  case True
  then show ?thesis
    using assms by (auto simp: get_html_2XX_only_def Let_def dest: fetch_html_heap)
next
  case False
  obtain cks w1 where l: "load_cookie_file E (configuration.cookies_file (config_or_default E config0))
        (PList (map PDict (configuration.cookies (config_or_default E config0))))
        (log INFO ''Loading Cookie File'' w) = (cks, w1)"
    by (cases "load_cookie_file E (configuration.cookies_file (config_or_default E config0))
        (PList (map PDict (configuration.cookies (config_or_default E config0))))
        (log INFO ''Loading Cookie File'' w)") auto
  have f: "fetch_html E u (config_or_default E config0) response cks w1 = (res, r', w')"
    using assms False l by (simp add: get_html_2XX_only_def Let_def)
  have "stripped_only (heap w) (heap w1)"
    using load_cookie_file_heap [OF l] by (simp add: log_def)
  then show ?thesis using fetch_html_heap [OF f] by (rule stripped_only_trans)
qed

lemma get_html_heap:
  assumes "get_html E u config0 response w = (res, r', w')"
  shows "stripped_only (heap w) (heap w')"
proof -
  obtain res1 r1 w1 where i: "get_html_2XX_only E u config0 response w = (res1, r1, w1)"
    by (cases "get_html_2XX_only E u config0 response w") auto
  have "heap w' = heap w1"
    using assms i by (auto simp: get_html_def log_def split: sum.splits if_splits)
  then show ?thesis using get_html_2XX_only_heap [OF i] by simp
qed

lemma send_request_heap:
  assumes "send_request E self cks w = (out, self', w')"
  shows "stripped_only (heap w) (heap w')"
proof -
  obtain kres h1 where k: "get_request_kwargs E (timeout self) (useragent self)
      (MRequest.proxies self) (MRequest.headers self) cks (heap w) = (kres, h1)"
    by (cases "get_request_kwargs E (timeout self) (useragent self)
      (MRequest.proxies self) (MRequest.headers self) cks (heap w)") auto
  have "heap w' = h1"
    using assms k
    by (auto simp: send_request_def Let_def
             split: sum.splits prod.splits option.splits if_splits
             dest!: except_RequestException_cases)
  then show ?thesis using get_request_kwargs_heap [OF k] by simp
qed

lemma send_heap:
  assumes "send E self w = (out, self', w')"
  shows "stripped_only (heap w) (heap w')"
proof -
  let ?w0 = "if MRequest.cookies_file self \<noteq> '''' then log INFO ''Loading Cookie File'' w else w"
  obtain cks w1 where l: "load_cookie_file E (MRequest.cookies_file self)
      (PList (map PDict (MRequest.cookies self))) ?w0 = (cks, w1)"
    by (cases "load_cookie_file E (MRequest.cookies_file self)
      (PList (map PDict (MRequest.cookies self))) ?w0") auto
  have s: "send_request E self cks w1 = (out, self', w')"
    using assms l by (simp add: send_def Let_def)
  have "heap ?w0 = heap w" by (simp add: log_def)
  then have "stripped_only (heap w) (heap w1)"
    using load_cookie_file_heap [OF l] by simp
  then show ?thesis using send_request_heap [OF s] by (rule stripped_only_trans)
qed

lemma run_tasks_heap:
  "stripped_only (heap w) (heap (snd (run_tasks E sched m_requests w)))"
proof (induction sched arbitrary: m_requests w)
  case Nil
  show ?case by (simp add: stripped_only_refl)
next
  case (Cons i rest)
  show ?case
  proof (cases "i < length m_requests")
    case False
    then show ?thesis using Cons.IH by simp
  next
    case True
    obtain out req w1 where s: "send E (m_requests ! i) w = (out, req, w1)"
      by (cases "send E (m_requests ! i) w") auto
    have "stripped_only (heap w1) (heap (snd (run_tasks E rest (m_requests[i := req]) w1)))"
      by (rule Cons.IH)
    with send_heap [OF s] have "stripped_only (heap w)
        (heap (snd (run_tasks E rest (m_requests[i := req]) w1)))"
      by (rule stripped_only_trans)
    then show ?thesis using True s by simp
  qed
qed

text \<open>
  C4, as the code has it. No statement assigns an attribute of the configuration or changes
  the list \<^verbatim>\<open>config.cookies\<close>. Across a single fetch (\<^verbatim>\<open>get_html_2XX_only\<close>, \<^verbatim>\<open>get_html\<close>) and
  across a batch, every dictionary that existed before, so every cookie record of the
  configuration, is afterwards either unchanged or what the strip loop makes of it: it can
  lose the keys of \<open>FILTERED_ATTR\<close> and nothing else.
\<close>

theorem cookie_records_only_stripped:
  "stripped_only (heap w) (heap (snd (snd (get_html_2XX_only E u config0 response w)))) \<and>
   stripped_only (heap w) (heap (snd (snd (get_html E u config0 response w)))) \<and>
   stripped_only (heap w) (heap (snd (multithread_request E completed urls config0 w)))"
proof -
  have a: "stripped_only (heap w) (heap (snd (snd (get_html_2XX_only E u config0 response w))))"
    by (cases "get_html_2XX_only E u config0 response w") (auto dest: get_html_2XX_only_heap)
  have b: "stripped_only (heap w) (heap (snd (snd (get_html E u config0 response w))))"
    by (cases "get_html E u config0 response w") (auto dest: get_html_heap)
  have c: "stripped_only (heap w) (heap (snd (multithread_request E completed urls config0 w)))"
    by (simp add: multithread_request_unfold run_tasks_heap)
  show ?thesis using a b c by blast
qed

text \<open>
  The claim C4 as stated says that the cookie records of the configuration are unchanged.
  \<^verbatim>\<open>get_request_kwargs\<close> deletes from the dictionaries it is given, and these are the records
  of \<^verbatim>\<open>config.cookies\<close>: after one fetch the configured record has lost \<^verbatim>\<open>hostOnly\<close>.
\<close>

theorem config_cookie_record_stripped_counterexample:
  "configuration.cookies example_config = [0] \<and>
   heap example_world ! 0 =
     [(''name'', PStr ''sid''), (''value'', PStr ''abc''), (''hostOnly'', PBool False)] \<and>
   heap (snd (snd (get_html example_env ''http://up.example'' (Some example_config) None
                     example_world))) ! 0 =
     [(''name'', PStr ''sid''), (''value'', PStr ''abc'')]"
  by (simp add: example_defs fetch_eval)

text \<open>The same fetch: the store afterwards holds the stripped record.\<close>

theorem cookie_records_only_stripped_witness:
  "stripped_only [example_cookie]
     (heap (snd (snd (get_html example_env ''http://up.example'' (Some example_config) None
                        example_world)))) \<and>
   heap (snd (snd (get_html example_env ''http://up.example'' (Some example_config) None
                     example_world))) = [strip_attrs FILTERED_ATTR example_cookie]"
proof -
  have "heap example_world = [example_cookie]" by (simp add: example_world_def)
  then have "stripped_only [example_cookie]
     (heap (snd (snd (get_html example_env ''http://up.example'' (Some example_config) None
                        example_world))))"
    using cookie_records_only_stripped [of example_world example_env "''http://up.example''"
            "Some example_config" None]
    by simp
  moreover have "heap (snd (snd (get_html example_env ''http://up.example''
                     (Some example_config) None example_world)))
                 = [strip_attrs FILTERED_ATTR example_cookie]"
    by (simp add: example_defs fetch_eval)
  ultimately show ?thesis by simp
qed

end
